theory Spec2Isabelle
  imports Main "HOL-Library.Word" "HOL-Library.Multiset"
begin

section \<open>The state sync reactor of \<^verbatim>\<open>statesync/reactor.go\<close>\<close>

text \<open>
  The reactor is embedded as a function from the reactor's state and one inbound
  message to an outcome (normal return or panic), the state left behind, and the list
  of effects performed, in program order. Effects are the calls the reactor makes on
  its collaborators: the logger, the peer (\<^verbatim>\<open>Send\<close>), the switch
  (\<^verbatim>\<open>StopPeerForError\<close>) and the application connection.
\<close>

subsection \<open>Constants and data\<close>

type_synonym byte = "8 word"
type_synonym uint32 = "32 word"
type_synonym uint64 = "64 word"

text \<open>A \<^verbatim>\<open>p2p.Peer\<close> is identified by a number; only its identity matters here.\<close>

type_synonym Peer = nat

definition MetadataChannel :: byte where
  "MetadataChannel = 0x60"

definition ChunkChannel :: byte where
  "ChunkChannel = 0x61"

text \<open>\<^verbatim>\<open>maxMsgSize = int(65e6)\<close>; lengths are never negative, hence a natural number.\<close>

definition maxMsgSize :: nat where
  "maxMsgSize = 65000000"

text \<open>
  Go errors. The three sentinel errors are compared by identity in \<^verbatim>\<open>Receive\<close>;
  \<^verbatim>\<open>errors.New\<close> gives an \<open>ErrorString\<close>, and the formatted size error of
  \<^verbatim>\<open>decodeMsg\<close> keeps its two numbers.
\<close>

datatype error =
    ErrSnapshotRejected
  | ErrSnapshotRejectedFormat
  | ErrSnapshotRejectedHeight
  | ErrMsgExceedsMaxSize nat nat
  | ErrorString string

record Snapshot =
  Height :: uint64
  Format :: uint32
  Chunks :: uint64
  Metadata :: "byte list"

text \<open>\<^verbatim>\<open>Checksum\<close> is a \<^verbatim>\<open>[sha1.Size]byte\<close> array: a list of 20 bytes.\<close>

record SnapshotChunk =
  chunk_Height :: uint64
  chunk_Chunk :: uint64
  chunk_Format :: uint32
  chunk_Data :: "byte list"
  chunk_Checksum :: "byte list"

record ListSnapshotsResponseMessage =
  Snapshots :: "Snapshot list"

record GetSnapshotChunkRequestMessage =
  req_Height :: uint64
  req_Format :: uint32
  req_Chunk :: uint64

record GetSnapshotChunkResponseMessage =
  Chunk :: SnapshotChunk

text \<open>
  The \<^verbatim>\<open>Message\<close> interface holds a pointer to one of the four registered
  structs; the pointer may be nil (\<open>None\<close>), which the \<^verbatim>\<open>ValidateBasic\<close>
  methods test for.
\<close>

datatype Message =
    ListSnapshotsRequest "unit option"
  | ListSnapshotsResponse "ListSnapshotsResponseMessage option"
  | GetSnapshotChunkRequest "GetSnapshotChunkRequestMessage option"
  | GetSnapshotChunkResponse "GetSnapshotChunkResponseMessage option"

subsection \<open>Validation\<close>

fun Snapshot_ValidateBasic :: "Snapshot option \<Rightarrow> error option" where
  "Snapshot_ValidateBasic None = Some (ErrorString ''snapshot cannot be nil'')"
| "Snapshot_ValidateBasic (Some s) =
     (if Height s = 0 then Some (ErrorString ''snapshot height cannot be 0'') else None)"

fun SnapshotChunk_ValidateBasic :: "SnapshotChunk option \<Rightarrow> error option" where
  "SnapshotChunk_ValidateBasic None = Some (ErrorString ''chunk cannot be nil'')"
| "SnapshotChunk_ValidateBasic (Some c) =
     (if chunk_Height c = 0 then Some (ErrorString ''chunk height cannot be 0'')
      else if chunk_Chunk c = 0 then Some (ErrorString ''chunk index cannot be 0'')
      else None)"

fun ListSnapshotsRequestMessage_ValidateBasic :: "unit option \<Rightarrow> error option" where
  "ListSnapshotsRequestMessage_ValidateBasic m = None"

text \<open>The \<^verbatim>\<open>range m.Snapshots\<close> loop: the first failing snapshot's error is returned.\<close>

fun validate_snapshots :: "Snapshot list \<Rightarrow> error option" where
  "validate_snapshots [] = None"
| "validate_snapshots (snapshot # rest) =
     (case Snapshot_ValidateBasic (Some snapshot) of
        Some err \<Rightarrow> Some err
      | None \<Rightarrow> validate_snapshots rest)"

fun ListSnapshotsResponseMessage_ValidateBasic ::
  "ListSnapshotsResponseMessage option \<Rightarrow> error option" where
  "ListSnapshotsResponseMessage_ValidateBasic None = Some (ErrorString ''nil message'')"
| "ListSnapshotsResponseMessage_ValidateBasic (Some m) = validate_snapshots (Snapshots m)"

fun GetSnapshotChunkRequestMessage_ValidateBasic ::
  "GetSnapshotChunkRequestMessage option \<Rightarrow> error option" where
  "GetSnapshotChunkRequestMessage_ValidateBasic None = Some (ErrorString ''nil message'')"
| "GetSnapshotChunkRequestMessage_ValidateBasic (Some m) =
     (if req_Height m = 0 then Some (ErrorString ''height 0'')
      else if req_Chunk m = 0 then Some (ErrorString ''chunk 0'')
      else None)"

fun GetSnapshotChunkResponseMessage_ValidateBasic ::
  "GetSnapshotChunkResponseMessage option \<Rightarrow> error option" where
  "GetSnapshotChunkResponseMessage_ValidateBasic None =
     Some (ErrorString ''chunk cannot be nil'')"
| "GetSnapshotChunkResponseMessage_ValidateBasic (Some m) =
     SnapshotChunk_ValidateBasic (Some (Chunk m))"

text \<open>The interface call \<^verbatim>\<open>msg.ValidateBasic()\<close>: dispatch on the dynamic type.\<close>

fun ValidateBasic :: "Message \<Rightarrow> error option" where
  "ValidateBasic (ListSnapshotsRequest m) = ListSnapshotsRequestMessage_ValidateBasic m"
| "ValidateBasic (ListSnapshotsResponse m) = ListSnapshotsResponseMessage_ValidateBasic m"
| "ValidateBasic (GetSnapshotChunkRequest m) = GetSnapshotChunkRequestMessage_ValidateBasic m"
| "ValidateBasic (GetSnapshotChunkResponse m) = GetSnapshotChunkResponseMessage_ValidateBasic m"

subsection \<open>Decoding\<close>

text \<open>
  The amino codec \<^verbatim>\<open>cdc\<close> is a package variable declared outside the two source
  files; \<^verbatim>\<open>cdc.UnmarshalBinaryBare\<close> is a parameter of the model, returning
  either its error or the decoded message.
\<close>

type_synonym Unmarshal = "byte list \<Rightarrow> error + Message"

definition decodeMsg :: "Unmarshal \<Rightarrow> byte list \<Rightarrow> error + Message" where
  "decodeMsg unmarshal bz =
     (if length bz > maxMsgSize then Inl (ErrMsgExceedsMaxSize (length bz) maxMsgSize)
      else unmarshal bz)"

subsection \<open>The application connection\<close>

text \<open>
  \<^verbatim>\<open>proxy.AppConnSnapshot\<close> is the external application. Its answers are inputs of the
  model: a record of functions from each request to the reply. The first two calls are
  the ones \<^verbatim>\<open>Receive\<close> makes itself, with the reply fields it reads; the last two
  are the calls of \<^verbatim>\<open>Sync\<close>, named as in the specification.
\<close>

record abci_Snapshot =
  abci_Height :: uint64
  abci_Format :: uint32
  abci_Chunks :: uint64
  abci_Metadata :: "byte list"

record abci_SnapshotChunk =
  abci_chunk_Height :: uint64
  abci_chunk_Format :: uint32
  abci_chunk_Chunk :: uint64
  abci_chunk_Data :: "byte list"
  abci_chunk_Checksum :: "byte list"

datatype offer_result = Accept | Reject | RejectFormat | RejectHeight | OfferFailed string

datatype apply_result = Applied | ApplyFailed string

record AppConnSnapshot =
  ListSnapshotsSync :: "error + abci_Snapshot list"
  GetSnapshotChunkSync :: "uint64 \<Rightarrow> uint32 \<Rightarrow> uint64 \<Rightarrow> error + abci_SnapshotChunk option"
  offer_snapshot :: "Snapshot \<Rightarrow> offer_result"
  apply_chunk :: "uint64 \<Rightarrow> uint32 \<Rightarrow> uint64 \<Rightarrow> byte list \<Rightarrow> apply_result"

subsection \<open>Effects\<close>

text \<open>
  \<open>Send p ch m\<close> is \<^verbatim>\<open>p.Send(ch, cdc.MustMarshalBinaryBare(m))\<close>: the effect records
  the message rather than its encoding.
\<close>

datatype event =
    LogInfo string
  | LogError string
  | LogDebug string
  | Send Peer byte Message
  | StopPeerForError Peer error
  | CallListSnapshots
  | CallGetSnapshotChunk uint64 uint32 uint64
  | CallOfferSnapshot Snapshot
  | CallApplyChunk uint64 uint32 uint64 "byte list"

datatype panic_value = PanicError error | PanicString string

datatype outcome = Returned | Panicked panic_value

text \<open>Projections of an effect list.\<close>

fun sends :: "event list \<Rightarrow> (Peer \<times> byte \<times> Message) list" where
  "sends [] = []"
| "sends (Send p ch m # es) = (p, ch, m) # sends es"
| "sends (e # es) = sends es"

fun stopped :: "event list \<Rightarrow> (Peer \<times> error) list" where
  "stopped [] = []"
| "stopped (StopPeerForError p err # es) = (p, err) # stopped es"
| "stopped (e # es) = stopped es"

fun offers :: "event list \<Rightarrow> Snapshot list" where
  "offers [] = []"
| "offers (CallOfferSnapshot s # es) = s # offers es"
| "offers (e # es) = offers es"

fun applied :: "event list \<Rightarrow> (uint64 \<times> uint32 \<times> uint64 \<times> byte list) list" where
  "applied [] = []"
| "applied (CallApplyChunk h f c d # es) = (h, f, c, d) # applied es"
| "applied (e # es) = applied es"

fun app_calls :: "event list \<Rightarrow> event list" where
  "app_calls [] = []"
| "app_calls (LogInfo s # es) = app_calls es"
| "app_calls (LogError s # es) = app_calls es"
| "app_calls (LogDebug s # es) = app_calls es"
| "app_calls (Send p ch m # es) = app_calls es"
| "app_calls (StopPeerForError p err # es) = app_calls es"
| "app_calls (e # es) = e # app_calls es"

text \<open>
  The chunk requests sent, and the chunks handed to the application, each as
  (height, format, chunk index).
\<close>

fun chunk_requests :: "event list \<Rightarrow> (uint64 \<times> uint32 \<times> uint64) list" where
  "chunk_requests [] = []"
| "chunk_requests (Send p ch (GetSnapshotChunkRequest (Some q)) # es) =
     (req_Height q, req_Format q, req_Chunk q) # chunk_requests es"
| "chunk_requests (e # es) = chunk_requests es"

definition applied_ids :: "event list \<Rightarrow> (uint64 \<times> uint32 \<times> uint64) list" where
  "applied_ids evs = map (\<lambda>(h, f, c, d). (h, f, c)) (applied evs)"

subsection \<open>The restore state machine \<^verbatim>\<open>Sync\<close>\<close>

text \<open>
  Modelled from the spec: the type \<^verbatim>\<open>Sync\<close> and its functions \<^verbatim>\<open>NewSync\<close>,
  \<^verbatim>\<open>IsActive\<close>, \<^verbatim>\<open>IsDone\<close>, \<^verbatim>\<open>Start\<close>, \<^verbatim>\<open>NextChunk\<close>, \<^verbatim>\<open>Apply\<close> and the
  fields \<^verbatim>\<open>snapshot\<close> and \<^verbatim>\<open>nextChunk\<close> are used by the reactor and declared
  outside the two source files. The states and transitions are those of the
  specification's table (section 4.3): \<open>Idle\<close>, \<open>Active\<close> with the snapshot and the
  next chunk index, \<open>Done\<close> with height and format, \<open>Failed\<close> with a reason.
\<close>

datatype Sync =
    Idle
  | Active Snapshot uint64
  | Done uint64 uint32
  | Failed string

definition NewSync :: Sync where
  "NewSync = Idle"

fun IsActive :: "Sync \<Rightarrow> bool" where
  "IsActive (Active s n) = True"
| "IsActive sy = False"

fun IsDone :: "Sync \<Rightarrow> bool" where
  "IsDone (Done h f) = True"
| "IsDone sy = False"

text \<open>
  Modelled from the spec: \<^verbatim>\<open>Sync.Start\<close>. From \<open>Idle\<close> the snapshot is offered to the
  application; an accepted offer gives \<open>Active\<close> with next chunk 1, a rejection keeps
  \<open>Idle\<close> and is reported with the matching sentinel error, any other failure of the
  call is reported as it is. In every other state nothing is offered and the state is
  unchanged.
\<close>

fun Sync_Start :: "AppConnSnapshot \<Rightarrow> Sync \<Rightarrow> Snapshot \<Rightarrow> error option \<times> Sync \<times> event list" where
  "Sync_Start app Idle s =
     (case offer_snapshot app s of
        Accept \<Rightarrow> (None, Active s 1, [CallOfferSnapshot s])
      | Reject \<Rightarrow> (Some ErrSnapshotRejected, Idle, [CallOfferSnapshot s])
      | RejectFormat \<Rightarrow> (Some ErrSnapshotRejectedFormat, Idle, [CallOfferSnapshot s])
      | RejectHeight \<Rightarrow> (Some ErrSnapshotRejectedHeight, Idle, [CallOfferSnapshot s])
      | OfferFailed why \<Rightarrow> (Some (ErrorString why), Idle, [CallOfferSnapshot s]))"
| "Sync_Start app sy s = (Some (ErrorString ''sync is not idle''), sy, [])"

text \<open>
  Modelled from the spec: \<^verbatim>\<open>Sync.NextChunk\<close> and the fields \<^verbatim>\<open>snapshot\<close> (a pointer,
  nil unless a restore is active) and \<^verbatim>\<open>nextChunk\<close>.
\<close>

fun Sync_snapshot :: "Sync \<Rightarrow> Snapshot option" where
  "Sync_snapshot (Active s n) = Some s"
| "Sync_snapshot sy = None"

fun Sync_nextChunk :: "Sync \<Rightarrow> uint64" where
  "Sync_nextChunk (Active s n) = n"
| "Sync_nextChunk sy = 0"

fun Sync_NextChunk :: "Sync \<Rightarrow> (uint64 \<times> uint32 \<times> uint64) option" where
  "Sync_NextChunk (Active s n) = Some (Height s, Format s, n)"
| "Sync_NextChunk sy = None"

text \<open>
  Modelled from the spec: \<^verbatim>\<open>Sync.Apply\<close>. In \<open>Active s n\<close> a chunk whose
  (height, format, chunk) is not \<open>(Height s, Format s, n)\<close> is refused with an error and
  not handed to the application. A matching chunk is applied; on success the machine
  moves to \<open>Active s (n + 1)\<close> when \<open>n < Chunks s\<close> and to \<open>Done\<close> when
  \<open>n = Chunks s\<close>. A failing application call is fatal (\<open>Failed\<close>); so is the case
  \<open>Chunks s < n\<close>, for which the table has no transition. Outside \<open>Active\<close> nothing is
  applied and the state is unchanged.
\<close>

fun Sync_Apply :: "AppConnSnapshot \<Rightarrow> Sync \<Rightarrow> SnapshotChunk \<Rightarrow> error option \<times> Sync \<times> event list" where
  "Sync_Apply app (Active s n) c =
     (if chunk_Height c \<noteq> Height s \<or> chunk_Format c \<noteq> Format s \<or> chunk_Chunk c \<noteq> n
      then (Some (ErrorString ''unexpected chunk''), Active s n, [])
      else
        (case apply_chunk app (chunk_Height c) (chunk_Format c) (chunk_Chunk c) (chunk_Data c) of
           Applied \<Rightarrow>
             (if n < Chunks s
              then (None, Active s (n + 1),
                    [CallApplyChunk (chunk_Height c) (chunk_Format c) (chunk_Chunk c) (chunk_Data c)])
              else if n = Chunks s
              then (None, Done (Height s) (Format s),
                    [CallApplyChunk (chunk_Height c) (chunk_Format c) (chunk_Chunk c) (chunk_Data c)])
              else (Some (ErrorString ''chunk index beyond the snapshot''),
                    Failed ''chunk index beyond the snapshot'',
                    [CallApplyChunk (chunk_Height c) (chunk_Format c) (chunk_Chunk c) (chunk_Data c)]))
         | ApplyFailed why \<Rightarrow>
             (Some (ErrorString why), Failed why,
              [CallApplyChunk (chunk_Height c) (chunk_Format c) (chunk_Chunk c) (chunk_Data c)])))"
| "Sync_Apply app sy c = (Some (ErrorString ''no restore in progress''), sy, [])"

subsection \<open>The reactor\<close>

text \<open>
  \<open>running\<close> is the started flag of the embedded \<^verbatim>\<open>p2p.BaseReactor\<close>, read by
  \<^verbatim>\<open>IsRunning\<close>; \<open>config_Enabled\<close> is \<^verbatim>\<open>config.Enabled\<close>.
\<close>

record Reactor =
  running :: bool
  config_Enabled :: bool
  conn :: AppConnSnapshot
  sync :: Sync

definition NewReactor :: "bool \<Rightarrow> AppConnSnapshot \<Rightarrow> Reactor" where
  "NewReactor enabled app =
     \<lparr>running = False, config_Enabled = enabled, conn = app, sync = NewSync\<rparr>"

definition IsRunning :: "Reactor \<Rightarrow> bool" where
  "IsRunning ssR = running ssR"

text \<open>\<^verbatim>\<open>OnStart\<close> logs and returns nil on both branches.\<close>

definition OnStart :: "Reactor \<Rightarrow> error option \<times> event list" where
  "OnStart ssR =
     (if \<not> config_Enabled ssR
      then (None, [LogInfo ''Starting state sync reactor'', LogInfo ''State sync disabled''])
      else (None, [LogInfo ''Starting state sync reactor'']))"

type_synonym result = "outcome \<times> Reactor \<times> event list"

text \<open>Effects performed before a computation come first in its effect list.\<close>

fun after :: "event list \<Rightarrow> result \<Rightarrow> result" where
  "after evs (out, ssR, evs') = (out, ssR, evs @ evs')"

text \<open>
  The comparator handed to \<^verbatim>\<open>sort.Slice\<close>, with \<open>a = snapshots[i]\<close> and
  \<open>b = snapshots[j]\<close>. Word comparison is unsigned, as for \<^verbatim>\<open>uint64\<close> and
  \<^verbatim>\<open>uint32\<close>.
\<close>

definition less_snapshot :: "Snapshot \<Rightarrow> Snapshot \<Rightarrow> bool" where
  "less_snapshot a b =
     (if Height a < Height b then False
      else if Height a = Height b \<and> Format a < Format b then False
      else True)"

text \<open>
  \<^verbatim>\<open>sort.Slice\<close> is the Go library's sort, driven only by the comparator. It is
  modelled by the library's insertion sort, the pass it runs on short slices: each
  element moves left while the comparator puts it before its left neighbour. The sorted
  prefix is kept reversed, nearest neighbour first.
\<close>

fun sift :: "('a \<Rightarrow> 'a \<Rightarrow> bool) \<Rightarrow> 'a \<Rightarrow> 'a list \<Rightarrow> 'a list" where
  "sift lt x [] = [x]"
| "sift lt x (y # ys) = (if lt x y then y # sift lt x ys else x # y # ys)"

definition sort_Slice :: "('a \<Rightarrow> 'a \<Rightarrow> bool) \<Rightarrow> 'a list \<Rightarrow> 'a list" where
  "sort_Slice lt xs = rev (foldl (\<lambda>prefix x. sift lt x prefix) [] xs)"

text \<open>The three rejections after which \<^verbatim>\<open>Receive\<close> continues with the next candidate.\<close>

definition rejected :: "error \<Rightarrow> bool" where
  "rejected err =
     (err = ErrSnapshotRejected \<or> err = ErrSnapshotRejectedFormat \<or> err = ErrSnapshotRejectedHeight)"

text \<open>
  The loop \<^verbatim>\<open>for _, snapshot := range snapshots\<close> of the
  \<^verbatim>\<open>ListSnapshotsResponseMessage\<close> case: offer, continue on a rejection, panic on any
  other error, and on success request the next chunk from \<open>src\<close> and break.
\<close>

fun offer_loop :: "Reactor \<Rightarrow> Peer \<Rightarrow> Snapshot list \<Rightarrow> result" where
  "offer_loop ssR src [] = (Returned, ssR, [])"
| "offer_loop ssR src (snapshot # rest) =
     (case Sync_Start (conn ssR) (sync ssR) snapshot of
        (Some err, sy, evs) \<Rightarrow>
          (if rejected err
           then after (LogInfo ''Offering snapshot'' # evs @ [LogInfo ''Rejected snapshot''])
                  (offer_loop (ssR\<lparr>sync := sy\<rparr>) src rest)
           else (Panicked (PanicError err), ssR\<lparr>sync := sy\<rparr>, LogInfo ''Offering snapshot'' # evs))
      | (None, sy, evs) \<Rightarrow>
          (case Sync_NextChunk sy of
             None \<Rightarrow>
               (Panicked (PanicString ''nil pointer dereference''), ssR\<lparr>sync := sy\<rparr>,
                LogInfo ''Offering snapshot'' # evs)
           | Some (height, format, chunk) \<Rightarrow>
               (Returned, ssR\<lparr>sync := sy\<rparr>,
                LogInfo ''Offering snapshot'' # evs @
                [LogInfo ''Accepted snapshot'', LogInfo ''Fetching snapshot chunk'',
                 Send src ChunkChannel
                   (GetSnapshotChunkRequest
                      (Some \<lparr>req_Height = height, req_Format = format, req_Chunk = chunk\<rparr>))])))"

text \<open>Case \<^verbatim>\<open>*ListSnapshotsRequestMessage\<close> on the metadata channel.\<close>

definition convert_snapshot :: "abci_Snapshot \<Rightarrow> Snapshot" where
  "convert_snapshot snapshot =
     \<lparr>Height = abci_Height snapshot, Format = abci_Format snapshot,
      Chunks = abci_Chunks snapshot, Metadata = abci_Metadata snapshot\<rparr>"

definition on_ListSnapshotsRequest :: "Reactor \<Rightarrow> Peer \<Rightarrow> result" where
  "on_ListSnapshotsRequest ssR src =
     (case ListSnapshotsSync (conn ssR) of
        Inl err \<Rightarrow> (Returned, ssR, [CallListSnapshots, LogError ''Failed to list snapshots''])
      | Inr resp \<Rightarrow>
          (Returned, ssR,
           [CallListSnapshots,
            Send src MetadataChannel
              (ListSnapshotsResponse (Some \<lparr>Snapshots = map convert_snapshot resp\<rparr>))]))"

text \<open>Case \<^verbatim>\<open>*ListSnapshotsResponseMessage\<close> on the metadata channel.\<close>

definition on_ListSnapshotsResponse ::
  "Reactor \<Rightarrow> Peer \<Rightarrow> ListSnapshotsResponseMessage option \<Rightarrow> result" where
  "on_ListSnapshotsResponse ssR src msg =
     (if IsActive (sync ssR) \<or> IsDone (sync ssR) then (Returned, ssR, [])
      else
        (case msg of
           None \<Rightarrow> (Panicked (PanicString ''nil pointer dereference''), ssR, [])
         | Some m \<Rightarrow>
             after [LogInfo ''Received snapshots'']
               (if length (Snapshots m) = 0 then (Returned, ssR, [])
                else offer_loop ssR src (sort_Slice less_snapshot (Snapshots m)))))"

text \<open>
  Case \<^verbatim>\<open>*GetSnapshotChunkRequestMessage\<close> on the chunk channel.
  \<^verbatim>\<open>copy(chunk.Checksum[:], resp.Chunk.Checksum)\<close> fills a zeroed array of 20 bytes
  with as many bytes as the source slice has, at most 20.
\<close>

definition copy_checksum :: "byte list \<Rightarrow> byte list" where
  "copy_checksum cs = take 20 cs @ replicate (20 - length cs) 0"

definition on_GetSnapshotChunkRequest ::
  "Reactor \<Rightarrow> Peer \<Rightarrow> GetSnapshotChunkRequestMessage option \<Rightarrow> result" where
  "on_GetSnapshotChunkRequest ssR src msg =
     (case msg of
        None \<Rightarrow> (Panicked (PanicString ''nil pointer dereference''), ssR, [])
      | Some m \<Rightarrow>
          after [LogInfo ''Providing snapshot chunk'',
                 CallGetSnapshotChunk (req_Height m) (req_Format m) (req_Chunk m)]
            (case GetSnapshotChunkSync (conn ssR) (req_Height m) (req_Format m) (req_Chunk m) of
               Inl err \<Rightarrow> (Panicked (PanicError err), ssR, [])
             | Inr None \<Rightarrow> (Panicked (PanicString ''No chunk''), ssR, [])
             | Inr (Some c) \<Rightarrow>
                 (Returned, ssR,
                  [Send src ChunkChannel
                     (GetSnapshotChunkResponse
                        (Some \<lparr>Chunk =
                           \<lparr>chunk_Height = abci_chunk_Height c,
                            chunk_Chunk = abci_chunk_Chunk c,
                            chunk_Format = abci_chunk_Format c,
                            chunk_Data = abci_chunk_Data c,
                            chunk_Checksum = copy_checksum (abci_chunk_Checksum c)\<rparr>\<rparr>))])))"

text \<open>Case \<^verbatim>\<open>*GetSnapshotChunkResponseMessage\<close> on the chunk channel.\<close>

definition on_GetSnapshotChunkResponse ::
  "Reactor \<Rightarrow> Peer \<Rightarrow> GetSnapshotChunkResponseMessage option \<Rightarrow> result" where
  "on_GetSnapshotChunkResponse ssR src msg =
     (if \<not> IsActive (sync ssR)
      then (Returned, ssR, [LogError ''Received chunk with no restore in progress''])
      else
        (case msg of
           None \<Rightarrow> (Panicked (PanicString ''nil pointer dereference''), ssR, [])
         | Some m \<Rightarrow>
             (case Sync_Apply (conn ssR) (sync ssR) (Chunk m) of
                (Some err, sy, evs) \<Rightarrow>
                  (Panicked (PanicError err), ssR\<lparr>sync := sy\<rparr>, LogInfo ''Applying chunk'' # evs)
              | (None, sy, evs) \<Rightarrow>
                  (if IsDone sy
                   then (Returned, ssR\<lparr>sync := sy\<rparr>,
                         LogInfo ''Applying chunk'' # evs @ [LogInfo ''Restore complete''])
                   else
                     (case Sync_snapshot sy of
                        None \<Rightarrow>
                          (Panicked (PanicString ''nil pointer dereference''), ssR\<lparr>sync := sy\<rparr>,
                           LogInfo ''Applying chunk'' # evs)
                      | Some s \<Rightarrow>
                          (Returned, ssR\<lparr>sync := sy\<rparr>,
                           LogInfo ''Applying chunk'' # evs @
                           [LogInfo ''Fetching snapshot chunk'',
                            Send src ChunkChannel
                              (GetSnapshotChunkRequest
                                 (Some \<lparr>req_Height = Height s, req_Format = Format s,
                                        req_Chunk = Sync_nextChunk sy\<rparr>))]))))))"

text \<open>The two nested switches of \<^verbatim>\<open>Receive\<close>: on the channel, then on the message type.\<close>

definition dispatch :: "Reactor \<Rightarrow> byte \<Rightarrow> Peer \<Rightarrow> Message \<Rightarrow> result" where
  "dispatch ssR chID src msg =
     (if chID = MetadataChannel then
        (case msg of
           ListSnapshotsRequest m \<Rightarrow> on_ListSnapshotsRequest ssR src
         | ListSnapshotsResponse m \<Rightarrow> on_ListSnapshotsResponse ssR src m
         | GetSnapshotChunkRequest m \<Rightarrow> (Returned, ssR, [])
         | GetSnapshotChunkResponse m \<Rightarrow> (Returned, ssR, []))
      else if chID = ChunkChannel then
        (case msg of
           ListSnapshotsRequest m \<Rightarrow> (Returned, ssR, [])
         | ListSnapshotsResponse m \<Rightarrow> (Returned, ssR, [])
         | GetSnapshotChunkRequest m \<Rightarrow> on_GetSnapshotChunkRequest ssR src m
         | GetSnapshotChunkResponse m \<Rightarrow> on_GetSnapshotChunkResponse ssR src m)
      else (Returned, ssR, []))"

definition Receive :: "Unmarshal \<Rightarrow> Reactor \<Rightarrow> byte \<Rightarrow> Peer \<Rightarrow> byte list \<Rightarrow> result" where
  "Receive unmarshal ssR chID src msgBytes =
     (if \<not> IsRunning ssR then (Returned, ssR, [])
      else
        (case decodeMsg unmarshal msgBytes of
           Inl err \<Rightarrow>
             (Returned, ssR, [LogError ''Error decoding message'', StopPeerForError src err])
         | Inr msg \<Rightarrow>
             (case ValidateBasic msg of
                Some err \<Rightarrow>
                  (Returned, ssR,
                   [LogError ''Peer sent us invalid msg'', StopPeerForError src err])
              | None \<Rightarrow> after [LogDebug ''Receive''] (dispatch ssR chID src msg))))"

text \<open>
  \<^verbatim>\<open>AddPeer\<close> starts a goroutine that loops, sleeping ten seconds between rounds. The
  receiver is a pointer, so each round reads the reactor as it is at that moment. What
  a round reads from its surroundings is given as a list, one entry per round: whether
  the peer is running, the reactor as it is then, and the result of \<^verbatim>\<open>peer.Send\<close>.
  The loop ends at the first round whose condition fails; a list that ends earlier
  describes a loop still running.
\<close>

fun solicit :: "Peer \<Rightarrow> (bool \<times> Reactor \<times> bool) list \<Rightarrow> event list" where
  "solicit peer [] = []"
| "solicit peer ((peer_running, ssR, res) # later) =
     (if peer_running \<and> \<not> IsActive (sync ssR) \<and> \<not> IsDone (sync ssR)
      then [LogInfo ''Requesting snapshots'',
            Send peer MetadataChannel (ListSnapshotsRequest (Some ()))] @
           (if \<not> res then [LogError ''Failed to send message''] else []) @
           solicit peer later
      else [LogInfo ''No longer soliciting snapshots''])"

definition AddPeer :: "Peer \<Rightarrow> (bool \<times> Reactor \<times> bool) list \<Rightarrow> event list" where
  "AddPeer peer rounds = LogInfo ''Found peer'' # solicit peer rounds"

text \<open>A run of the reactor: inbound messages handled one after another, until a panic.\<close>

fun run :: "Unmarshal \<Rightarrow> Reactor \<Rightarrow> (byte \<times> Peer \<times> byte list) list \<Rightarrow> result" where
  "run unmarshal ssR [] = (Returned, ssR, [])"
| "run unmarshal ssR ((chID, src, msgBytes) # later) =
     (case Receive unmarshal ssR chID src msgBytes of
        (Returned, ssR', evs) \<Rightarrow> after evs (run unmarshal ssR' later)
      | (Panicked p, ssR', evs) \<Rightarrow> (Panicked p, ssR', evs))"


subsection \<open>The course of a restore\<close>

text \<open>\<open>chunk_ids s k\<close> lists chunks 1 to \<open>k\<close> of snapshot \<open>s\<close>, in ascending order.\<close>

definition chunk_ids :: "Snapshot \<Rightarrow> nat \<Rightarrow> (uint64 \<times> uint32 \<times> uint64) list" where
  "chunk_ids s k = map (\<lambda>i. (Height s, Format s, of_nat i)) [1..<Suc k]"

text \<open>
  What the effects of a run so far must look like in each state of the sync. While
  \<open>Idle\<close>, nothing was applied and no chunk was requested. While \<open>Active s n\<close>, the
  last snapshot offered is \<open>s\<close>, chunks 1 to \<open>n - 1\<close> of \<open>s\<close> were applied, once each
  and in this order, and chunks 1 to \<open>n\<close> were requested. Once \<open>Done\<close>, all chunks of
  the last snapshot offered were applied and requested, once each and in order. \<open>Failed\<close>
  is never the state after a call that returns: \<^verbatim>\<open>Receive\<close> panics on the error that
  comes with it.
\<close>

fun restoring :: "Sync \<Rightarrow> event list \<Rightarrow> bool" where
  "restoring Idle evs = (applied evs = [] \<and> chunk_requests evs = [])"
| "restoring (Active s n) evs =
     (offers evs \<noteq> [] \<and> last (offers evs) = s \<and> 1 \<le> unat n
      \<and> applied_ids evs = chunk_ids s (unat n - 1)
      \<and> chunk_requests evs = chunk_ids s (unat n))"
| "restoring (Done h f) evs =
     (offers evs \<noteq> [] \<and> h = Height (last (offers evs)) \<and> f = Format (last (offers evs))
      \<and> applied_ids evs = chunk_ids (last (offers evs)) (unat (Chunks (last (offers evs))))
      \<and> chunk_requests evs = chunk_ids (last (offers evs)) (unat (Chunks (last (offers evs)))))"
| "restoring (Failed why) evs = False"

subsection \<open>Fixtures\<close>

text \<open>
  Concrete collaborators on which the theorems below are instantiated. \<open>decodes_to msg\<close>
  is a codec that decodes every byte string to \<open>msg\<close>. \<open>demo_app\<close> holds one snapshot
  (height 10, format 1, two chunks) and answers offers as in scenario S2 of the
  specification: format 2 at height 10 is rejected for its format, format 1 at height
  10 is accepted, everything else is rejected. \<open>failing_app\<close> cannot list snapshots and
  fails on an offer at height 10 while accepting any other.
\<close>

definition decodes_to :: "Message \<Rightarrow> Unmarshal" where
  "decodes_to msg = (\<lambda>bz. Inr msg)"

definition demo_chunk :: "uint64 \<Rightarrow> abci_SnapshotChunk" where
  "demo_chunk c =
     \<lparr>abci_chunk_Height = 10, abci_chunk_Format = 1, abci_chunk_Chunk = c,
      abci_chunk_Data = [1, 2, 3], abci_chunk_Checksum = [7, 7]\<rparr>"

definition demo_app :: AppConnSnapshot where
  "demo_app =
     \<lparr>ListSnapshotsSync =
        Inr [\<lparr>abci_Height = 10, abci_Format = 1, abci_Chunks = 2, abci_Metadata = []\<rparr>],
      GetSnapshotChunkSync =
        (\<lambda>h f c. if h = 10 \<and> f = 1 \<and> (c = 1 \<or> c = 2) then Inr (Some (demo_chunk c))
                  else Inr None),
      offer_snapshot =
        (\<lambda>s. if Height s = 10 \<and> Format s = 2 then RejectFormat
              else if Height s = 10 \<and> Format s = 1 then Accept
              else Reject),
      apply_chunk = (\<lambda>h f c d. Applied)\<rparr>"

definition failing_app :: AppConnSnapshot where
  "failing_app =
     \<lparr>ListSnapshotsSync = Inl (ErrorString ''unavailable''),
      GetSnapshotChunkSync = (\<lambda>h f c. Inl (ErrorString ''unavailable'')),
      offer_snapshot = (\<lambda>s. if Height s = 10 then OfferFailed ''unavailable'' else Accept),
      apply_chunk = (\<lambda>h f c d. ApplyFailed ''unavailable'')\<rparr>"

definition snap :: "uint64 \<Rightarrow> uint32 \<Rightarrow> uint64 \<Rightarrow> Snapshot" where
  "snap h f n = \<lparr>Height = h, Format = f, Chunks = n, Metadata = []\<rparr>"

definition chunk_of :: "uint64 \<Rightarrow> uint32 \<Rightarrow> uint64 \<Rightarrow> byte list \<Rightarrow> byte list \<Rightarrow> SnapshotChunk" where
  "chunk_of h f c d cs =
     \<lparr>chunk_Height = h, chunk_Chunk = c, chunk_Format = f, chunk_Data = d,
      chunk_Checksum = cs\<rparr>"

definition started :: "bool \<Rightarrow> AppConnSnapshot \<Rightarrow> Sync \<Rightarrow> Reactor" where
  "started enabled app sy = (NewReactor enabled app)\<lparr>running := True, sync := sy\<rparr>"

text \<open>
  Scenario S1 of the specification: a peer offers one snapshot (height 10, format 1, two
  chunks) and then delivers chunk 1 and chunk 2. \<open>demo_codec\<close> decodes the byte strings
  of the three messages, \<open>demo_restore\<close> is the sequence of deliveries, and \<open>demo_trace\<close>
  the effects they are expected to have.
\<close>

definition demo_codec :: Unmarshal where
  "demo_codec bz =
     (if bz = [0] then Inr (ListSnapshotsResponse (Some \<lparr>Snapshots = [snap 10 1 2]\<rparr>))
      else if bz = [1]
      then Inr (GetSnapshotChunkResponse (Some \<lparr>Chunk = chunk_of 10 1 1 [1, 2, 3] []\<rparr>))
      else if bz = [2]
      then Inr (GetSnapshotChunkResponse (Some \<lparr>Chunk = chunk_of 10 1 2 [4, 5] []\<rparr>))
      else Inl (ErrorString ''unknown message''))"

definition demo_restore :: "(byte \<times> Peer \<times> byte list) list" where
  "demo_restore = [(MetadataChannel, 7, [0]), (ChunkChannel, 7, [1]), (ChunkChannel, 7, [2])]"

definition demo_trace :: "event list" where
  "demo_trace =
     [LogDebug ''Receive'', LogInfo ''Received snapshots'',
      LogInfo ''Offering snapshot'', CallOfferSnapshot (snap 10 1 2),
      LogInfo ''Accepted snapshot'', LogInfo ''Fetching snapshot chunk'',
      Send 7 ChunkChannel
        (GetSnapshotChunkRequest (Some \<lparr>req_Height = 10, req_Format = 1, req_Chunk = 1\<rparr>)),
      LogDebug ''Receive'', LogInfo ''Applying chunk'', CallApplyChunk 10 1 1 [1, 2, 3],
      LogInfo ''Fetching snapshot chunk'',
      Send 7 ChunkChannel
        (GetSnapshotChunkRequest (Some \<lparr>req_Height = 10, req_Format = 1, req_Chunk = 2\<rparr>)),
      LogDebug ''Receive'', LogInfo ''Applying chunk'', CallApplyChunk 10 1 2 [4, 5],
      LogInfo ''Restore complete'']"

section \<open>Properties\<close>

subsection \<open>Validation\<close>

lemma validate_snapshots_None_iff:
  "validate_snapshots xs = None \<longleftrightarrow> (\<forall>s\<in>set xs. Height s \<noteq> 0)"
  by (induction xs) auto

text \<open>
  C6, as the code has it. A \<^verbatim>\<open>ListSnapshotsResponseMessage\<close> passes validation exactly
  when every snapshot it carries has a non-zero height. The chunk count is not looked
  at: changing \<open>Chunks\<close> never changes the verdict of \<^verbatim>\<open>Snapshot.ValidateBasic\<close>.
\<close>

theorem ListSnapshotsResponse_valid_iff_heights_nonzero:
  "(ValidateBasic (ListSnapshotsResponse (Some m)) = None
      \<longleftrightarrow> (\<forall>s\<in>set (Snapshots m). Height s \<noteq> 0))
   \<and> (Snapshot_ValidateBasic (Some s) = None \<longleftrightarrow> Height s \<noteq> 0)
   \<and> Snapshot_ValidateBasic (Some (s\<lparr>Chunks := c\<rparr>)) = Snapshot_ValidateBasic (Some s)"
  by (simp add: validate_snapshots_None_iff)

theorem ListSnapshotsResponse_valid_iff_heights_nonzero_witness:
  "ValidateBasic (ListSnapshotsResponse (Some \<lparr>Snapshots = [snap 10 1 2, snap 5 1 0]\<rparr>)) = None
   \<and> ValidateBasic (ListSnapshotsResponse (Some \<lparr>Snapshots = [snap 10 1 2, snap 0 1 3]\<rparr>))
       \<noteq> None"
  using ListSnapshotsResponse_valid_iff_heights_nonzero
          [of "\<lparr>Snapshots = [snap 10 1 2, snap 5 1 0]\<rparr>"]
        ListSnapshotsResponse_valid_iff_heights_nonzero
          [of "\<lparr>Snapshots = [snap 10 1 2, snap 0 1 3]\<rparr>"]
  by (simp add: snap_def)

text \<open>
  C6, as the claim states it, fails: a snapshot with height 1 and no chunks passes
  \<^verbatim>\<open>Snapshot.ValidateBasic\<close>, and so does a response that carries it.
\<close>

theorem snapshot_without_chunks_passes_validation:
  "Snapshot_ValidateBasic (Some (snap 1 0 0)) = None
   \<and> ValidateBasic (ListSnapshotsResponse (Some \<lparr>Snapshots = [snap 1 0 0]\<rparr>)) = None"
  by (simp add: snap_def)

subsection \<open>Decoding and validation in \<^verbatim>\<open>Receive\<close>\<close>

text \<open>
  C7. A running reactor hands every message it has decoded to \<^verbatim>\<open>ValidateBasic\<close>
  first. When validation fails with \<open>err\<close>, the reactor logs, stops the sending peer
  with \<open>err\<close> and returns with its state unchanged: nothing is dispatched. Only when
  validation succeeds is the message dispatched. A
  \<^verbatim>\<open>GetSnapshotChunkRequestMessage\<close> passes validation exactly when its height and its
  chunk index are both non-zero.
\<close>

theorem Receive_validates_before_dispatch:
  assumes "IsRunning ssR" and "decodeMsg unmarshal msgBytes = Inr msg"
  shows "(\<forall>err. ValidateBasic msg = Some err \<longrightarrow>
            Receive unmarshal ssR chID src msgBytes =
              (Returned, ssR, [LogError ''Peer sent us invalid msg'', StopPeerForError src err]))
       \<and> (ValidateBasic msg = None \<longrightarrow>
            Receive unmarshal ssR chID src msgBytes =
              after [LogDebug ''Receive''] (dispatch ssR chID src msg))
       \<and> (\<forall>m. ValidateBasic (GetSnapshotChunkRequest (Some m)) = None
                 \<longleftrightarrow> req_Height m \<noteq> 0 \<and> req_Chunk m \<noteq> 0)"
  using assms by (simp add: Receive_def)

text \<open>
  Scenario S4: a chunk request with height 0 reaches a running reactor whose restore is
  active. The peer is stopped, and the reactor is left as it was.
\<close>

theorem Receive_validates_before_dispatch_witness:
  "IsRunning (started True demo_app (Active (snap 10 1 2) 1))
   \<and> decodeMsg
        (decodes_to (GetSnapshotChunkRequest (Some \<lparr>req_Height = 0, req_Format = 1, req_Chunk = 1\<rparr>)))
        [1, 2] =
      Inr (GetSnapshotChunkRequest (Some \<lparr>req_Height = 0, req_Format = 1, req_Chunk = 1\<rparr>))
   \<and> Receive
        (decodes_to (GetSnapshotChunkRequest (Some \<lparr>req_Height = 0, req_Format = 1, req_Chunk = 1\<rparr>)))
        (started True demo_app (Active (snap 10 1 2) 1)) ChunkChannel 7 [1, 2] =
      (Returned, started True demo_app (Active (snap 10 1 2) 1),
       [LogError ''Peer sent us invalid msg'', StopPeerForError 7 (ErrorString ''height 0'')])"
proof -
  let ?msg = "GetSnapshotChunkRequest (Some \<lparr>req_Height = 0, req_Format = 1, req_Chunk = 1\<rparr>)"
  let ?ssR = "started True demo_app (Active (snap 10 1 2) 1)"
  have running: "IsRunning ?ssR"
    by (simp add: IsRunning_def started_def)
  have decoded: "decodeMsg (decodes_to ?msg) [1, 2] = Inr ?msg"
    by (simp add: decodeMsg_def decodes_to_def maxMsgSize_def)
  have invalid: "ValidateBasic ?msg = Some (ErrorString ''height 0'')"
    by simp
  from Receive_validates_before_dispatch [OF running decoded, of ChunkChannel 7] invalid
  have "Receive (decodes_to ?msg) ?ssR ChunkChannel 7 [1, 2] =
          (Returned, ?ssR,
           [LogError ''Peer sent us invalid msg'', StopPeerForError 7 (ErrorString ''height 0'')])"
    by blast
  with running decoded show ?thesis by blast
qed

text \<open>
  C8. A running reactor that receives more than 65,000,000 bytes fails to decode them,
  with the size error; it logs, stops the sending peer with that error and returns with
  its state unchanged. The codec is never consulted.
\<close>

theorem Receive_oversize_stops_peer:
  assumes "IsRunning ssR" and "length msgBytes > 65000000"
  shows "decodeMsg unmarshal msgBytes = Inl (ErrMsgExceedsMaxSize (length msgBytes) 65000000)
       \<and> Receive unmarshal ssR chID src msgBytes =
           (Returned, ssR,
            [LogError ''Error decoding message'',
             StopPeerForError src (ErrMsgExceedsMaxSize (length msgBytes) 65000000)])"
  using assms by (simp add: Receive_def decodeMsg_def maxMsgSize_def)

text \<open>The boundary case: 65,000,001 bytes, from a codec that would decode anything.\<close>

theorem Receive_oversize_stops_peer_witness:
  "IsRunning (started True demo_app (Active (snap 10 1 2) 1))
   \<and> length (replicate 65000001 (0::byte)) > 65000000
   \<and> decodeMsg (decodes_to (ListSnapshotsRequest (Some ()))) (replicate 65000001 0) =
       Inl (ErrMsgExceedsMaxSize 65000001 65000000)
   \<and> Receive (decodes_to (ListSnapshotsRequest (Some ())))
        (started True demo_app (Active (snap 10 1 2) 1)) ChunkChannel 7
        (replicate 65000001 0) =
       (Returned, started True demo_app (Active (snap 10 1 2) 1),
        [LogError ''Error decoding message'',
         StopPeerForError 7 (ErrMsgExceedsMaxSize 65000001 65000000)])"
proof -
  let ?ssR = "started True demo_app (Active (snap 10 1 2) 1)"
  have running: "IsRunning ?ssR"
    by (simp add: IsRunning_def started_def)
  have long: "length (replicate 65000001 (0::byte)) > 65000000"
    by simp
  from Receive_oversize_stops_peer [OF running long] running long
  show ?thesis by simp
qed

subsection \<open>Facts about the fixtures and the projections\<close>


lemma IsRunning_started [simp]: "IsRunning (started e app sy)"
  by (simp add: IsRunning_def started_def NewReactor_def)

lemma sync_started [simp]: "sync (started e app sy) = sy"
  by (simp add: started_def NewReactor_def)

lemma conn_started [simp]: "conn (started e app sy) = app"
  by (simp add: started_def NewReactor_def)

lemma started_sync_update [simp]: "(started e app sy)\<lparr>sync := sy'\<rparr> = started e app sy'"
  by (simp add: started_def NewReactor_def)

lemma decodeMsg_decodes_to [simp]:
  "length bz \<le> 65000000 \<Longrightarrow> decodeMsg (decodes_to msg) bz = Inr msg"
  by (simp add: decodeMsg_def decodes_to_def maxMsgSize_def)

lemma sends_append [simp]: "sends (xs @ ys) = sends xs @ sends ys"
  by (induction xs rule: sends.induct) simp_all

lemma offers_append [simp]: "offers (xs @ ys) = offers xs @ offers ys"
  by (induction xs rule: offers.induct) simp_all

lemma applied_append [simp]: "applied (xs @ ys) = applied xs @ applied ys"
  by (induction xs rule: applied.induct) simp_all

lemma stopped_append [simp]: "stopped (xs @ ys) = stopped xs @ stopped ys"
  by (induction xs rule: stopped.induct) simp_all


subsection \<open>The guard of the \<^verbatim>\<open>ListSnapshotsResponseMessage\<close> case\<close>

text \<open>
  C3. Once the sync is \<open>Active\<close> or \<open>Done\<close>, a byte string that decodes to a
  \<^verbatim>\<open>ListSnapshotsResponseMessage\<close> leaves the whole reactor, and with it the sync
  state, as it was, whatever the channel, the peer and the content of the message: the
  application is not called (so no snapshot is offered) and no message is sent.
\<close>

theorem ListSnapshotsResponse_ignored_once_active_or_done:
  assumes "IsActive (sync ssR) \<or> IsDone (sync ssR)"
    and "decodeMsg unmarshal msgBytes = Inr (ListSnapshotsResponse m)"
  shows "\<exists>evs. Receive unmarshal ssR chID src msgBytes = (Returned, ssR, evs)
           \<and> app_calls evs = [] \<and> offers evs = [] \<and> sends evs = []"
  using assms
  by (auto simp: Receive_def dispatch_def on_ListSnapshotsResponse_def split: option.splits)

theorem ListSnapshotsResponse_ignored_once_active_or_done_witness:
  "(IsActive (sync (started True demo_app (Done 10 1))) \<or> IsDone (sync (started True demo_app (Done 10 1))))
   \<and> decodeMsg (decodes_to (ListSnapshotsResponse (Some \<lparr>Snapshots = [snap 10 1 1]\<rparr>))) [] =
        Inr (ListSnapshotsResponse (Some \<lparr>Snapshots = [snap 10 1 1]\<rparr>))
   \<and> (\<exists>evs. Receive (decodes_to (ListSnapshotsResponse (Some \<lparr>Snapshots = [snap 10 1 1]\<rparr>)))
               (started True demo_app (Done 10 1)) MetadataChannel 8 [] =
               (Returned, started True demo_app (Done 10 1), evs)
           \<and> app_calls evs = [] \<and> offers evs = [] \<and> sends evs = [])"
proof -
  let ?msg = "ListSnapshotsResponse (Some \<lparr>Snapshots = [snap 10 1 1]\<rparr>)"
  let ?ssR = "started True demo_app (Done 10 1)"
  have ignoring: "IsActive (sync ?ssR) \<or> IsDone (sync ?ssR)" by simp
  have decoded: "decodeMsg (decodes_to ?msg) [] = Inr ?msg" by simp
  from ListSnapshotsResponse_ignored_once_active_or_done [OF ignoring decoded, of MetadataChannel 8]
    ignoring decoded
  show ?thesis by blast
qed


subsection \<open>The serving path\<close>

text \<open>
  C10, as the code has it. Handling a \<^verbatim>\<open>ListSnapshotsRequestMessage\<close> or a
  \<^verbatim>\<open>GetSnapshotChunkRequestMessage\<close> never changes the reactor, and so never the
  sync state: nothing is offered and nothing is applied, on every channel and also when
  \<^verbatim>\<open>Receive\<close> panics. A running reactor that gets a list request on the metadata
  channel queries the application once; it sends the converted list to the requesting
  peer when the call succeeds, and only logs when the call fails. A running reactor
  that gets a valid chunk request on the chunk channel queries the application once; it
  sends the chunk to the requesting peer when the application returns one, and panics
  when the call fails or returns no chunk.
\<close>

theorem serving_requests_leave_sync_unchanged:
  assumes "decodeMsg unmarshal msgBytes = Inr msg"
    and "(\<exists>m. msg = ListSnapshotsRequest m) \<or> (\<exists>m. msg = GetSnapshotChunkRequest m)"
  shows "(\<exists>out evs. Receive unmarshal ssR chID src msgBytes = (out, ssR, evs)
            \<and> offers evs = [] \<and> applied evs = [])
       \<and> (IsRunning ssR \<and> chID = MetadataChannel \<and> (\<exists>m. msg = ListSnapshotsRequest m) \<longrightarrow>
            Receive unmarshal ssR chID src msgBytes =
              (Returned, ssR,
               LogDebug ''Receive'' # CallListSnapshots #
               (case ListSnapshotsSync (conn ssR) of
                  Inl err \<Rightarrow> [LogError ''Failed to list snapshots'']
                | Inr resp \<Rightarrow>
                    [Send src MetadataChannel
                       (ListSnapshotsResponse (Some \<lparr>Snapshots = map convert_snapshot resp\<rparr>))])))
       \<and> (\<forall>q. IsRunning ssR \<and> chID = ChunkChannel \<and> msg = GetSnapshotChunkRequest (Some q)
              \<and> req_Height q \<noteq> 0 \<and> req_Chunk q \<noteq> 0 \<longrightarrow>
            Receive unmarshal ssR chID src msgBytes =
              (case GetSnapshotChunkSync (conn ssR) (req_Height q) (req_Format q) (req_Chunk q) of
                 Inl err \<Rightarrow>
                   (Panicked (PanicError err), ssR,
                    [LogDebug ''Receive'', LogInfo ''Providing snapshot chunk'',
                     CallGetSnapshotChunk (req_Height q) (req_Format q) (req_Chunk q)])
               | Inr None \<Rightarrow>
                   (Panicked (PanicString ''No chunk''), ssR,
                    [LogDebug ''Receive'', LogInfo ''Providing snapshot chunk'',
                     CallGetSnapshotChunk (req_Height q) (req_Format q) (req_Chunk q)])
               | Inr (Some c) \<Rightarrow>
                   (Returned, ssR,
                    [LogDebug ''Receive'', LogInfo ''Providing snapshot chunk'',
                     CallGetSnapshotChunk (req_Height q) (req_Format q) (req_Chunk q),
                     Send src ChunkChannel
                       (GetSnapshotChunkResponse
                          (Some \<lparr>Chunk =
                             \<lparr>chunk_Height = abci_chunk_Height c,
                              chunk_Chunk = abci_chunk_Chunk c,
                              chunk_Format = abci_chunk_Format c,
                              chunk_Data = abci_chunk_Data c,
                              chunk_Checksum = copy_checksum (abci_chunk_Checksum c)\<rparr>\<rparr>))])))"
proof (intro conjI)
  show "\<exists>out evs. Receive unmarshal ssR chID src msgBytes = (out, ssR, evs)
            \<and> offers evs = [] \<and> applied evs = []"
    using assms
    by (auto simp: Receive_def dispatch_def on_ListSnapshotsRequest_def
          on_GetSnapshotChunkRequest_def split: option.splits sum.splits)
next
  show "IsRunning ssR \<and> chID = MetadataChannel \<and> (\<exists>m. msg = ListSnapshotsRequest m) \<longrightarrow>
            Receive unmarshal ssR chID src msgBytes =
              (Returned, ssR,
               LogDebug ''Receive'' # CallListSnapshots #
               (case ListSnapshotsSync (conn ssR) of
                  Inl err \<Rightarrow> [LogError ''Failed to list snapshots'']
                | Inr resp \<Rightarrow>
                    [Send src MetadataChannel
                       (ListSnapshotsResponse (Some \<lparr>Snapshots = map convert_snapshot resp\<rparr>))]))"
    using assms(1)
    by (auto simp: Receive_def dispatch_def on_ListSnapshotsRequest_def split: sum.splits)
next
  show "\<forall>q. IsRunning ssR \<and> chID = ChunkChannel \<and> msg = GetSnapshotChunkRequest (Some q)
              \<and> req_Height q \<noteq> 0 \<and> req_Chunk q \<noteq> 0 \<longrightarrow>
            Receive unmarshal ssR chID src msgBytes =
              (case GetSnapshotChunkSync (conn ssR) (req_Height q) (req_Format q) (req_Chunk q) of
                 Inl err \<Rightarrow>
                   (Panicked (PanicError err), ssR,
                    [LogDebug ''Receive'', LogInfo ''Providing snapshot chunk'',
                     CallGetSnapshotChunk (req_Height q) (req_Format q) (req_Chunk q)])
               | Inr None \<Rightarrow>
                   (Panicked (PanicString ''No chunk''), ssR,
                    [LogDebug ''Receive'', LogInfo ''Providing snapshot chunk'',
                     CallGetSnapshotChunk (req_Height q) (req_Format q) (req_Chunk q)])
               | Inr (Some c) \<Rightarrow>
                   (Returned, ssR,
                    [LogDebug ''Receive'', LogInfo ''Providing snapshot chunk'',
                     CallGetSnapshotChunk (req_Height q) (req_Format q) (req_Chunk q),
                     Send src ChunkChannel
                       (GetSnapshotChunkResponse
                          (Some \<lparr>Chunk =
                             \<lparr>chunk_Height = abci_chunk_Height c,
                              chunk_Chunk = abci_chunk_Chunk c,
                              chunk_Format = abci_chunk_Format c,
                              chunk_Data = abci_chunk_Data c,
                              chunk_Checksum = copy_checksum (abci_chunk_Checksum c)\<rparr>\<rparr>))]))"
    using assms(1)
    by (auto simp: Receive_def dispatch_def on_GetSnapshotChunkRequest_def
          MetadataChannel_def ChunkChannel_def split: sum.splits option.splits)
qed


text \<open>
  A chunk request served while a restore is active: the chunk goes back to the
  requesting peer, its checksum padded to 20 bytes, and the reactor is unchanged.
\<close>

theorem serving_requests_leave_sync_unchanged_witness:
  "decodeMsg (decodes_to (GetSnapshotChunkRequest
       (Some \<lparr>req_Height = 10, req_Format = 1, req_Chunk = 2\<rparr>))) [] =
     Inr (GetSnapshotChunkRequest (Some \<lparr>req_Height = 10, req_Format = 1, req_Chunk = 2\<rparr>))
   \<and> Receive (decodes_to (GetSnapshotChunkRequest
         (Some \<lparr>req_Height = 10, req_Format = 1, req_Chunk = 2\<rparr>)))
        (started True demo_app (Active (snap 10 1 2) 1)) ChunkChannel 7 [] =
       (Returned, started True demo_app (Active (snap 10 1 2) 1),
        [LogDebug ''Receive'', LogInfo ''Providing snapshot chunk'',
         CallGetSnapshotChunk 10 1 2,
         Send 7 ChunkChannel
           (GetSnapshotChunkResponse
              (Some \<lparr>Chunk = chunk_of 10 1 2 [1, 2, 3] (7 # 7 # replicate 18 0)\<rparr>))])"
proof -
  let ?q = "\<lparr>req_Height = 10, req_Format = 1, req_Chunk = 2\<rparr> :: GetSnapshotChunkRequestMessage"
  let ?msg = "GetSnapshotChunkRequest (Some ?q)"
  let ?ssR = "started True demo_app (Active (snap 10 1 2) 1)"
  have decoded: "decodeMsg (decodes_to ?msg) [] = Inr ?msg" by simp
  have request: "(\<exists>m. ?msg = ListSnapshotsRequest m) \<or> (\<exists>m. ?msg = GetSnapshotChunkRequest m)"
    by simp
  have answer: "GetSnapshotChunkSync (conn ?ssR) (req_Height ?q) (req_Format ?q) (req_Chunk ?q)
                  = Inr (Some (demo_chunk 2))"
    by (simp add: demo_app_def)
  have "Receive (decodes_to ?msg) ?ssR ChunkChannel 7 [] =
          (case GetSnapshotChunkSync (conn ?ssR) (req_Height ?q) (req_Format ?q) (req_Chunk ?q) of
                 Inl err \<Rightarrow>
                   (Panicked (PanicError err), ?ssR,
                    [LogDebug ''Receive'', LogInfo ''Providing snapshot chunk'',
                     CallGetSnapshotChunk (req_Height ?q) (req_Format ?q) (req_Chunk ?q)])
               | Inr None \<Rightarrow>
                   (Panicked (PanicString ''No chunk''), ?ssR,
                    [LogDebug ''Receive'', LogInfo ''Providing snapshot chunk'',
                     CallGetSnapshotChunk (req_Height ?q) (req_Format ?q) (req_Chunk ?q)])
               | Inr (Some c) \<Rightarrow>
                   (Returned, ?ssR,
                    [LogDebug ''Receive'', LogInfo ''Providing snapshot chunk'',
                     CallGetSnapshotChunk (req_Height ?q) (req_Format ?q) (req_Chunk ?q),
                     Send 7 ChunkChannel
                       (GetSnapshotChunkResponse
                          (Some \<lparr>Chunk =
                             \<lparr>chunk_Height = abci_chunk_Height c,
                              chunk_Chunk = abci_chunk_Chunk c,
                              chunk_Format = abci_chunk_Format c,
                              chunk_Data = abci_chunk_Data c,
                              chunk_Checksum = copy_checksum (abci_chunk_Checksum c)\<rparr>\<rparr>))]))"
    using serving_requests_leave_sync_unchanged [OF decoded request, of ?ssR ChunkChannel 7]
    by simp
  then have "Receive (decodes_to ?msg) ?ssR ChunkChannel 7 [] =
       (Returned, ?ssR,
        [LogDebug ''Receive'', LogInfo ''Providing snapshot chunk'',
         CallGetSnapshotChunk 10 1 2,
         Send 7 ChunkChannel
           (GetSnapshotChunkResponse
              (Some \<lparr>Chunk = chunk_of 10 1 2 [1, 2, 3] (7 # 7 # replicate 18 0)\<rparr>))])"
    unfolding answer by (simp add: demo_chunk_def chunk_of_def copy_checksum_def)
  with decoded show ?thesis by blast
qed


text \<open>
  C10, as the claim states it, fails: when the application cannot list its snapshots,
  a valid list request on the metadata channel is answered with no message at all.
\<close>

theorem failed_listing_sends_no_response:
  "decodeMsg (decodes_to (ListSnapshotsRequest (Some ()))) [] = Inr (ListSnapshotsRequest (Some ()))
   \<and> Receive (decodes_to (ListSnapshotsRequest (Some ()))) (started True failing_app Idle)
        MetadataChannel 7 [] =
       (Returned, started True failing_app Idle,
        [LogDebug ''Receive'', CallListSnapshots, LogError ''Failed to list snapshots''])
   \<and> sends [LogDebug ''Receive'', CallListSnapshots, LogError ''Failed to list snapshots''] = []"
  by (simp add: Receive_def dispatch_def on_ListSnapshotsRequest_def failing_app_def)

subsection \<open>Chunk responses\<close>




text \<open>
  C5 fails on the code: the restore path never looks at the checksum. The same chunk
  (height 10, format 1, index 1, data 1 2 3) is applied when it arrives with a checksum
  of twenty zero bytes and when it arrives with twenty bytes 255; at most one of the
  two can be the digest of the data.
\<close>

theorem chunk_applied_whatever_its_checksum:
  "Receive (decodes_to (GetSnapshotChunkResponse (Some \<lparr>Chunk = chunk_of 10 1 1 [1, 2, 3] (replicate 20 0)\<rparr>)))
        (started True demo_app (Active (snap 10 1 2) 1)) ChunkChannel 7 [] =
       (Returned, started True demo_app (Active (snap 10 1 2) 2),
        [LogDebug ''Receive'', LogInfo ''Applying chunk'', CallApplyChunk 10 1 1 [1, 2, 3],
         LogInfo ''Fetching snapshot chunk'',
         Send 7 ChunkChannel
           (GetSnapshotChunkRequest (Some \<lparr>req_Height = 10, req_Format = 1, req_Chunk = 2\<rparr>))])
   \<and> Receive (decodes_to (GetSnapshotChunkResponse (Some \<lparr>Chunk = chunk_of 10 1 1 [1, 2, 3] (replicate 20 255)\<rparr>)))
        (started True demo_app (Active (snap 10 1 2) 1)) ChunkChannel 7 [] =
       (Returned, started True demo_app (Active (snap 10 1 2) 2),
        [LogDebug ''Receive'', LogInfo ''Applying chunk'', CallApplyChunk 10 1 1 [1, 2, 3],
         LogInfo ''Fetching snapshot chunk'',
         Send 7 ChunkChannel
           (GetSnapshotChunkRequest (Some \<lparr>req_Height = 10, req_Format = 1, req_Chunk = 2\<rparr>))])"
  by (simp add: Receive_def dispatch_def on_GetSnapshotChunkResponse_def
        MetadataChannel_def ChunkChannel_def chunk_of_def snap_def demo_app_def)

subsection \<open>Peers of a disabled reactor\<close>

text \<open>
  C4 fails on the code: \<^verbatim>\<open>AddPeer\<close> does not read the configuration. A reactor
  with \<^verbatim>\<open>Enabled = false\<close>, whose \<^verbatim>\<open>OnStart\<close> logs that state sync is
  disabled, still sends a \<^verbatim>\<open>ListSnapshotsRequestMessage\<close> to a new running peer in
  the first round of the loop; what a round of the loop does is the same for every
  value of the switch.
\<close>

theorem AddPeer_solicits_although_disabled:
  "config_Enabled (started False demo_app Idle) = False
   \<and> OnStart (started False demo_app Idle) =
       (None, [LogInfo ''Starting state sync reactor'', LogInfo ''State sync disabled''])
   \<and> AddPeer 7 [(True, started False demo_app Idle, True)] =
       [LogInfo ''Found peer'', LogInfo ''Requesting snapshots'',
        Send 7 MetadataChannel (ListSnapshotsRequest (Some ()))]
   \<and> solicit peer ((peer_running, ssR\<lparr>config_Enabled := enabled\<rparr>, res) # later) =
       solicit peer ((peer_running, ssR, res) # later)"
  by (simp add: AddPeer_def OnStart_def started_def NewReactor_def)

subsection \<open>Choosing a snapshot\<close>

















subsection \<open>From the accepted offer to \<open>Done\<close>\<close>

text \<open>
  Every handler keeps the relation \<open>restoring\<close> between the sync state and the effects
  so far, and so does every run that does not panic.
\<close>

lemma chunk_requests_append [simp]:
  "chunk_requests (xs @ ys) = chunk_requests xs @ chunk_requests ys"
  by (induction xs rule: chunk_requests.induct) simp_all

lemma applied_ids_append [simp]: "applied_ids (xs @ ys) = applied_ids xs @ applied_ids ys"
  by (simp add: applied_ids_def)

lemma applied_ids_Nil [simp]: "applied evs = [] \<Longrightarrow> applied_ids evs = []"
  by (simp add: applied_ids_def)

lemma chunk_ids_0 [simp]: "chunk_ids s 0 = []"
  by (simp add: chunk_ids_def)

lemma chunk_ids_Suc: "chunk_ids s (Suc k) = chunk_ids s k @ [(Height s, Format s, of_nat (Suc k))]"
  by (simp add: chunk_ids_def)

lemma restoring_quiet:
  assumes "restoring sy evs0" and "offers evs = []" and "applied evs = []"
    and "chunk_requests evs = []"
  shows "restoring sy (evs0 @ evs)"
  using assms by (cases sy) simp_all

lemma unat_next: "(n :: uint64) < k \<Longrightarrow> unat (n + 1) = Suc (unat n)"
proof -
  assume "n < k"
  then have "unat n < unat k" by (simp add: word_less_nat_alt)
  moreover have "unat k < 2 ^ 64" using unsigned_less [of k, where ?'a = nat] by simp
  ultimately show ?thesis by (simp add: unat_word_ariths)
qed

lemma offer_loop_restoring:
  assumes "sync ssR = Idle" and "offer_loop ssR src xs = (Returned, ssR', evs)"
  shows "(sync ssR' = Idle \<and> applied evs = [] \<and> chunk_requests evs = [])
       \<or> (\<exists>s. sync ssR' = Active s 1 \<and> offers evs \<noteq> [] \<and> last (offers evs) = s
             \<and> applied evs = [] \<and> chunk_requests evs = [(Height s, Format s, 1)])"
  using assms
proof (induction xs arbitrary: evs)
  case Nil
  then show ?case by simp
next
  case (Cons x xs)
  have same: "ssR\<lparr>sync := Idle\<rparr> = ssR"
    using Cons.prems(1) by (cases ssR) simp
  show ?case
  proof (cases "offer_snapshot (conn ssR) x")
    case Accept
    with Cons.prems show ?thesis by auto
  next
    case (OfferFailed why)
    with Cons.prems show ?thesis by (auto simp: rejected_def)
  next
    case Reject
    with Cons.prems same obtain evs' where
      "offer_loop ssR src xs = (Returned, ssR', evs')"
      "evs = [LogInfo ''Offering snapshot'', CallOfferSnapshot x, LogInfo ''Rejected snapshot''] @ evs'"
      by (cases "offer_loop ssR src xs") (auto simp: rejected_def)
    with Cons.IH [OF Cons.prems(1)] show ?thesis by auto
  next
    case RejectFormat
    with Cons.prems same obtain evs' where
      "offer_loop ssR src xs = (Returned, ssR', evs')"
      "evs = [LogInfo ''Offering snapshot'', CallOfferSnapshot x, LogInfo ''Rejected snapshot''] @ evs'"
      by (cases "offer_loop ssR src xs") (auto simp: rejected_def)
    with Cons.IH [OF Cons.prems(1)] show ?thesis by auto
  next
    case RejectHeight
    with Cons.prems same obtain evs' where
      "offer_loop ssR src xs = (Returned, ssR', evs')"
      "evs = [LogInfo ''Offering snapshot'', CallOfferSnapshot x, LogInfo ''Rejected snapshot''] @ evs'"
      by (cases "offer_loop ssR src xs") (auto simp: rejected_def)
    with Cons.IH [OF Cons.prems(1)] show ?thesis by auto
  qed
qed

lemma on_ListSnapshotsResponse_restoring:
  assumes "restoring (sync ssR) evs0"
    and "on_ListSnapshotsResponse ssR src msg = (Returned, ssR', evs)"
  shows "restoring (sync ssR') (evs0 @ evs)"
proof (cases "sync ssR")
  case Idle
  show ?thesis
  proof (cases msg)
    case None
    with assms Idle show ?thesis by (simp add: on_ListSnapshotsResponse_def)
  next
    case (Some m)
    show ?thesis
    proof (cases "length (Snapshots m) = 0")
      case True
      with assms Idle Some show ?thesis
        by (auto simp: on_ListSnapshotsResponse_def)
    next
      case False
      with assms(2) Idle Some obtain evs' where
        loop: "offer_loop ssR src (sort_Slice less_snapshot (Snapshots m)) = (Returned, ssR', evs')"
        and evs: "evs = LogInfo ''Received snapshots'' # evs'"
        by (cases "offer_loop ssR src (sort_Slice less_snapshot (Snapshots m))")
           (auto simp: on_ListSnapshotsResponse_def)
      from offer_loop_restoring [OF Idle loop] assms(1) Idle evs show ?thesis
        by (auto simp: chunk_ids_def)
    qed
  qed
next
  case (Active s n)
  with assms show ?thesis by (auto simp: on_ListSnapshotsResponse_def)
next
  case (Done h f)
  with assms show ?thesis by (auto simp: on_ListSnapshotsResponse_def)
next
  case (Failed why)
  with assms show ?thesis by simp
qed

lemma on_GetSnapshotChunkResponse_restoring:
  assumes "restoring (sync ssR) evs0"
    and "on_GetSnapshotChunkResponse ssR src msg = (Returned, ssR', evs)"
  shows "restoring (sync ssR') (evs0 @ evs)"
proof (cases "sync ssR")
  case Idle
  with assms show ?thesis by (auto simp: on_GetSnapshotChunkResponse_def)
next
  case (Done h f)
  with assms show ?thesis by (auto simp: on_GetSnapshotChunkResponse_def)
next
  case (Failed why)
  with assms show ?thesis by simp
next
  case (Active s n)
  show ?thesis
  proof (cases msg)
    case None
    with assms Active show ?thesis by (simp add: on_GetSnapshotChunkResponse_def)
  next
    case (Some m)
    let ?c = "Chunk m"
    from assms(2) Active Some have
      match: "chunk_Height ?c = Height s" "chunk_Format ?c = Format s" "chunk_Chunk ?c = n"
      and ok: "apply_chunk (conn ssR) (Height s) (Format s) n (chunk_Data ?c) = Applied"
      and bound: "n < Chunks s \<or> n = Chunks s"
      by (auto simp: on_GetSnapshotChunkResponse_def split: if_splits apply_result.splits)
    from assms(1) Active have inv:
      "offers evs0 \<noteq> []" "last (offers evs0) = s" "1 \<le> unat n"
      "applied_ids evs0 = chunk_ids s (unat n - 1)" "chunk_requests evs0 = chunk_ids s (unat n)"
      by simp_all
    from inv(3) obtain k where k: "unat n = Suc k"
      by (cases "unat n") simp_all
    have "of_nat (unat n) = n"
      by simp
    with k have n: "of_nat (Suc k) = n"
      by simp
    show ?thesis
    proof (cases "n < Chunks s")
      case True
      with assms(2) Active Some match ok have
        "sync ssR' = Active s (n + 1)"
        "evs = [LogInfo ''Applying chunk'', CallApplyChunk (Height s) (Format s) n (chunk_Data ?c),
                LogInfo ''Fetching snapshot chunk'',
                Send src ChunkChannel
                  (GetSnapshotChunkRequest
                     (Some \<lparr>req_Height = Height s, req_Format = Format s, req_Chunk = n + 1\<rparr>))]"
        by (auto simp: on_GetSnapshotChunkResponse_def)
      moreover have "unat (n + 1) = Suc (Suc k)"
        using unat_next [OF True] k by simp
      moreover have "of_nat (Suc (Suc k)) = n + 1"
        using n by simp
      ultimately show ?thesis
        using inv k n by (simp add: chunk_ids_Suc applied_ids_def)
    next
      case False
      with bound have last: "n = Chunks s" by simp
      with assms(2) Active Some match ok have
        "sync ssR' = Done (Height s) (Format s)"
        "evs = [LogInfo ''Applying chunk'', CallApplyChunk (Height s) (Format s) n (chunk_Data ?c),
                LogInfo ''Restore complete'']"
        by (auto simp: on_GetSnapshotChunkResponse_def)
      then show ?thesis
        using inv k n last by (simp add: chunk_ids_Suc applied_ids_def)
    qed
  qed
qed

lemma after_eq:
  "after es r = (out, ssR', evs) \<longleftrightarrow> (\<exists>evs'. r = (out, ssR', evs') \<and> evs = es @ evs')"
  by (cases r) auto

lemma dispatch_restoring:
  assumes "restoring (sync ssR) evs0"
    and "dispatch ssR chID src msg = (Returned, ssR', evs)"
  shows "restoring (sync ssR') (evs0 @ evs)"
proof (cases msg)
  case (ListSnapshotsRequest m)
  with assms(2) have "sync ssR' = sync ssR \<and> offers evs = [] \<and> applied evs = []
      \<and> chunk_requests evs = []"
    by (auto simp: dispatch_def on_ListSnapshotsRequest_def split: if_splits sum.splits)
  with assms(1) show ?thesis by (simp add: restoring_quiet)
next
  case (GetSnapshotChunkRequest m)
  with assms(2) have "sync ssR' = sync ssR \<and> offers evs = [] \<and> applied evs = []
      \<and> chunk_requests evs = []"
    by (auto simp: dispatch_def on_GetSnapshotChunkRequest_def
          split: if_splits sum.splits option.splits)
  with assms(1) show ?thesis by (simp add: restoring_quiet)
next
  case (ListSnapshotsResponse m)
  show ?thesis
  proof (cases "chID = MetadataChannel")
    case True
    with assms ListSnapshotsResponse show ?thesis
      by (simp add: dispatch_def on_ListSnapshotsResponse_restoring)
  next
    case False
    with assms ListSnapshotsResponse show ?thesis
      by (auto simp: dispatch_def restoring_quiet split: if_splits)
  qed
next
  case (GetSnapshotChunkResponse m)
  show ?thesis
  proof (cases "chID = ChunkChannel")
    case True
    with assms GetSnapshotChunkResponse show ?thesis
      by (simp add: dispatch_def on_GetSnapshotChunkResponse_restoring
            MetadataChannel_def ChunkChannel_def)
  next
    case False
    with assms GetSnapshotChunkResponse show ?thesis
      by (auto simp: dispatch_def restoring_quiet split: if_splits)
  qed
qed

lemma Receive_restoring:
  assumes "restoring (sync ssR) evs0"
    and "Receive unmarshal ssR chID src msgBytes = (Returned, ssR', evs)"
  shows "restoring (sync ssR') (evs0 @ evs)"
proof (cases "IsRunning ssR")
  case False
  with assms show ?thesis by (simp add: Receive_def)
next
  case True
  show ?thesis
  proof (cases "decodeMsg unmarshal msgBytes")
    case (Inl err)
    with assms True show ?thesis by (auto simp: Receive_def restoring_quiet)
  next
    case (Inr msg)
    show ?thesis
    proof (cases "ValidateBasic msg")
      case (Some err)
      with assms True Inr show ?thesis by (auto simp: Receive_def restoring_quiet)
    next
      case None
      with assms(2) True Inr obtain evs' where
        "dispatch ssR chID src msg = (Returned, ssR', evs')" "evs = [LogDebug ''Receive''] @ evs'"
        by (auto simp: Receive_def after_eq)
      moreover from assms(1) have "restoring (sync ssR) (evs0 @ [LogDebug ''Receive''])"
        by (simp add: restoring_quiet)
      ultimately show ?thesis
        using dispatch_restoring [of ssR "evs0 @ [LogDebug ''Receive'']" chID src msg ssR' evs']
        by simp
    qed
  qed
qed

lemma run_restoring:
  assumes "restoring (sync ssR) evs0"
    and "run unmarshal ssR inputs = (Returned, ssR', evs)"
  shows "restoring (sync ssR') (evs0 @ evs)"
  using assms
proof (induction inputs arbitrary: ssR evs0 evs)
  case Nil
  then show ?case by simp
next
  case (Cons input inputs)
  obtain chID src msgBytes where input: "input = (chID, src, msgBytes)"
    by (cases input)
  obtain out ssR1 evs1 where step: "Receive unmarshal ssR chID src msgBytes = (out, ssR1, evs1)"
    by (cases "Receive unmarshal ssR chID src msgBytes")
  show ?case
  proof (cases out)
    case (Panicked p)
    with Cons.prems(2) input step show ?thesis by simp
  next
    case Returned
    with Cons.prems(2) input step obtain evs2 where
      rest: "run unmarshal ssR1 inputs = (Returned, ssR', evs2)" and evs: "evs = evs1 @ evs2"
      by (auto simp: after_eq)
    from Receive_restoring [OF Cons.prems(1)] step Returned
    have "restoring (sync ssR1) (evs0 @ evs1)" by simp
    from Cons.IH [OF this rest] evs show ?thesis by simp
  qed
qed

text \<open>
  C2, with \<^verbatim>\<open>Sync.Start\<close> and \<^verbatim>\<open>Sync.Apply\<close> as the specification describes them.
  First part: in every run of the reactor that starts with the sync \<open>Idle\<close>, does not
  panic and ends with the sync \<open>Done h f\<close>, a snapshot was offered, the last one offered
  has height \<open>h\<close> and format \<open>f\<close>, and the chunks handed to the application are exactly
  chunks 1 to \<open>Chunks\<close> of that snapshot, once each, in ascending order; the chunk
  requests sent are exactly those for chunks 1 to \<open>Chunks\<close>, in this order, so none
  follows the final chunk. Second part, one step: a running reactor with the sync
  \<open>Active s n\<close> that receives, on the chunk channel, chunk \<open>n\<close> of \<open>s\<close>, which the
  application applies, moves to \<open>Active s (n + 1)\<close> and requests chunk \<open>n + 1\<close> from
  the sending peer when \<open>n < Chunks s\<close>; when \<open>n = Chunks s\<close> it moves to \<open>Done\<close>,
  logs the completion of the restore and sends nothing.
\<close>

theorem restore_applies_each_chunk_once_in_order:
  "(sync ssR = Idle \<and> run unmarshal ssR inputs = (Returned, ssR', evs) \<and> sync ssR' = Done h f \<longrightarrow>
      offers evs \<noteq> [] \<and> h = Height (last (offers evs)) \<and> f = Format (last (offers evs))
      \<and> applied_ids evs = chunk_ids (last (offers evs)) (unat (Chunks (last (offers evs))))
      \<and> chunk_requests evs = chunk_ids (last (offers evs)) (unat (Chunks (last (offers evs)))))
   \<and> (IsRunning r \<and> decodeMsg unmarshal msgBytes = Inr (GetSnapshotChunkResponse (Some m))
       \<and> sync r = Active s n
       \<and> chunk_Height (Chunk m) = Height s \<and> chunk_Format (Chunk m) = Format s
       \<and> chunk_Chunk (Chunk m) = n \<and> Height s \<noteq> 0 \<and> n \<noteq> 0
       \<and> apply_chunk (conn r) (Height s) (Format s) n (chunk_Data (Chunk m)) = Applied \<longrightarrow>
        (n < Chunks s \<longrightarrow>
           Receive unmarshal r ChunkChannel src msgBytes =
             (Returned, r\<lparr>sync := Active s (n + 1)\<rparr>,
              [LogDebug ''Receive'', LogInfo ''Applying chunk'',
               CallApplyChunk (Height s) (Format s) n (chunk_Data (Chunk m)),
               LogInfo ''Fetching snapshot chunk'',
               Send src ChunkChannel
                 (GetSnapshotChunkRequest
                    (Some \<lparr>req_Height = Height s, req_Format = Format s, req_Chunk = n + 1\<rparr>))]))
      \<and> (n = Chunks s \<longrightarrow>
           Receive unmarshal r ChunkChannel src msgBytes =
             (Returned, r\<lparr>sync := Done (Height s) (Format s)\<rparr>,
              [LogDebug ''Receive'', LogInfo ''Applying chunk'',
               CallApplyChunk (Height s) (Format s) n (chunk_Data (Chunk m)),
               LogInfo ''Restore complete''])))"
proof (intro conjI impI)
  assume a: "sync ssR = Idle \<and> run unmarshal ssR inputs = (Returned, ssR', evs)
               \<and> sync ssR' = Done h f"
  then have "restoring (sync ssR) []" by simp
  from run_restoring [OF this] a have "restoring (Done h f) evs"
    by (metis append_Nil)
  then show "offers evs \<noteq> []" "h = Height (last (offers evs))" "f = Format (last (offers evs))"
    "applied_ids evs = chunk_ids (last (offers evs)) (unat (Chunks (last (offers evs))))"
    "chunk_requests evs = chunk_ids (last (offers evs)) (unat (Chunks (last (offers evs))))"
    by simp_all
next
  assume a: "IsRunning r \<and> decodeMsg unmarshal msgBytes = Inr (GetSnapshotChunkResponse (Some m))
       \<and> sync r = Active s n
       \<and> chunk_Height (Chunk m) = Height s \<and> chunk_Format (Chunk m) = Format s
       \<and> chunk_Chunk (Chunk m) = n \<and> Height s \<noteq> 0 \<and> n \<noteq> 0
       \<and> apply_chunk (conn r) (Height s) (Format s) n (chunk_Data (Chunk m)) = Applied"
    and b: "n < Chunks s"
  then show "Receive unmarshal r ChunkChannel src msgBytes =
             (Returned, r\<lparr>sync := Active s (n + 1)\<rparr>,
              [LogDebug ''Receive'', LogInfo ''Applying chunk'',
               CallApplyChunk (Height s) (Format s) n (chunk_Data (Chunk m)),
               LogInfo ''Fetching snapshot chunk'',
               Send src ChunkChannel
                 (GetSnapshotChunkRequest
                    (Some \<lparr>req_Height = Height s, req_Format = Format s, req_Chunk = n + 1\<rparr>))])"
    by (simp add: Receive_def dispatch_def on_GetSnapshotChunkResponse_def
          MetadataChannel_def ChunkChannel_def)
next
  assume a: "IsRunning r \<and> decodeMsg unmarshal msgBytes = Inr (GetSnapshotChunkResponse (Some m))
       \<and> sync r = Active s n
       \<and> chunk_Height (Chunk m) = Height s \<and> chunk_Format (Chunk m) = Format s
       \<and> chunk_Chunk (Chunk m) = n \<and> Height s \<noteq> 0 \<and> n \<noteq> 0
       \<and> apply_chunk (conn r) (Height s) (Format s) n (chunk_Data (Chunk m)) = Applied"
    and b: "n = Chunks s"
  then show "Receive unmarshal r ChunkChannel src msgBytes =
             (Returned, r\<lparr>sync := Done (Height s) (Format s)\<rparr>,
              [LogDebug ''Receive'', LogInfo ''Applying chunk'',
               CallApplyChunk (Height s) (Format s) n (chunk_Data (Chunk m)),
               LogInfo ''Restore complete''])"
    by (simp add: Receive_def dispatch_def on_GetSnapshotChunkResponse_def
          MetadataChannel_def ChunkChannel_def)
qed

text \<open>Scenario S1: requests for chunks 1 and 2, chunks 1 and 2 applied, then \<open>Done\<close>.\<close>

theorem restore_applies_each_chunk_once_in_order_witness:
  "sync (started True demo_app Idle) = Idle
   \<and> run demo_codec (started True demo_app Idle) demo_restore =
       (Returned, started True demo_app (Done 10 1), demo_trace)
   \<and> offers demo_trace = [snap 10 1 2]
   \<and> applied_ids demo_trace = [(10, 1, 1), (10, 1, 2)]
   \<and> chunk_requests demo_trace = [(10, 1, 1), (10, 1, 2)]
   \<and> chunk_ids (snap 10 1 2) (unat (Chunks (snap 10 1 2))) = [(10, 1, 1), (10, 1, 2)]
   \<and> Receive demo_codec (started True demo_app (Active (snap 10 1 2) 1)) ChunkChannel 7 [1] =
       (Returned, started True demo_app (Active (snap 10 1 2) 2),
        [LogDebug ''Receive'', LogInfo ''Applying chunk'', CallApplyChunk 10 1 1 [1, 2, 3],
         LogInfo ''Fetching snapshot chunk'',
         Send 7 ChunkChannel
           (GetSnapshotChunkRequest (Some \<lparr>req_Height = 10, req_Format = 1, req_Chunk = 2\<rparr>))])
   \<and> Receive demo_codec (started True demo_app (Active (snap 10 1 2) 2)) ChunkChannel 7 [2] =
       (Returned, started True demo_app (Done 10 1),
        [LogDebug ''Receive'', LogInfo ''Applying chunk'', CallApplyChunk 10 1 2 [4, 5],
         LogInfo ''Restore complete''])"
proof -
  let ?idle = "started True demo_app Idle"
  let ?s = "snap 10 1 2"
  have idle: "sync ?idle = Idle" by simp
  have ran: "run demo_codec ?idle demo_restore =
               (Returned, started True demo_app (Done 10 1), demo_trace)"
    by (simp add: demo_restore_def demo_trace_def demo_codec_def Receive_def decodeMsg_def
          maxMsgSize_def dispatch_def on_ListSnapshotsResponse_def
          on_GetSnapshotChunkResponse_def sort_Slice_def MetadataChannel_def ChunkChannel_def
          snap_def chunk_of_def demo_app_def)
  have finished: "sync (started True demo_app (Done 10 1)) = Done 10 1" by simp
  have offered: "offers demo_trace = [?s]"
    by (simp add: demo_trace_def)
  have ids: "chunk_ids ?s (unat (Chunks ?s)) = [(10, 1, 1), (10, 1, 2)]"
    by (simp add: chunk_ids_def snap_def upt_rec)
  note whole = restore_applies_each_chunk_once_in_order
      [where ssR = ?idle and unmarshal = demo_codec and inputs = demo_restore
         and ssR' = "started True demo_app (Done 10 1)" and evs = demo_trace
         and h = 10 and f = 1, THEN conjunct1, rule_format, OF conjI [OF idle conjI [OF ran finished]]]
  from whole offered ids have counted:
    "applied_ids demo_trace = [(10, 1, 1), (10, 1, 2)]"
    "chunk_requests demo_trace = [(10, 1, 1), (10, 1, 2)]"
    by simp_all
  have first: "Receive demo_codec (started True demo_app (Active ?s 1)) ChunkChannel 7 [1] =
       (Returned, started True demo_app (Active ?s 2),
        [LogDebug ''Receive'', LogInfo ''Applying chunk'', CallApplyChunk 10 1 1 [1, 2, 3],
         LogInfo ''Fetching snapshot chunk'',
         Send 7 ChunkChannel
           (GetSnapshotChunkRequest (Some \<lparr>req_Height = 10, req_Format = 1, req_Chunk = 2\<rparr>))])"
    using restore_applies_each_chunk_once_in_order
      [where r = "started True demo_app (Active ?s 1)" and unmarshal = demo_codec
         and msgBytes = "[1]" and m = "\<lparr>Chunk = chunk_of 10 1 1 [1, 2, 3] []\<rparr>"
         and s = ?s and n = 1 and src = 7, THEN conjunct2]
    by (simp add: demo_codec_def decodeMsg_def maxMsgSize_def snap_def chunk_of_def demo_app_def)
  have final: "Receive demo_codec (started True demo_app (Active ?s 2)) ChunkChannel 7 [2] =
       (Returned, started True demo_app (Done 10 1),
        [LogDebug ''Receive'', LogInfo ''Applying chunk'', CallApplyChunk 10 1 2 [4, 5],
         LogInfo ''Restore complete''])"
    using restore_applies_each_chunk_once_in_order
      [where r = "started True demo_app (Active ?s 2)" and unmarshal = demo_codec
         and msgBytes = "[2]" and m = "\<lparr>Chunk = chunk_of 10 1 2 [4, 5] []\<rparr>"
         and s = ?s and n = 2 and src = 7, THEN conjunct2]
    by (simp add: demo_codec_def decodeMsg_def maxMsgSize_def snap_def chunk_of_def demo_app_def)
  from idle ran offered counted ids first final show ?thesis
    by blast
qed

end
